theory Spec2Isabelle
  imports Complex_Main
begin

section \<open>Utils.waitForElement\<close>

text \<open>
  \<^verbatim>\<open>waitForElement(selector, timeout)\<close> reads the clock once (\<^verbatim>\<open>startTime\<close>) and
  installs an interval timer of 100 time units. Nothing else happens in the call itself:
  the selector is queried for the first time inside the first timer callback. Each callback
  queries the document; a hit clears the timer and resolves, a miss with
  \<^verbatim>\<open>timeout === undefined\<close> does nothing, and a miss with
  \<^verbatim>\<open>Date.now() - startTime > timeout\<close> clears the timer and rejects.

  The document is seen through \<open>query\<close>, the result of
  \<^verbatim>\<open>document.querySelector(selector)\<close> at a given instant (\<open>None\<close> for
  \<^verbatim>\<open>null\<close>). The clock is seen through \<open>clock\<close>: \<open>clock k\<close> is what
  \<^verbatim>\<open>Date.now()\<close> gives inside the \<open>k\<close>-th timer callback. The loop has no bound of
  its own, so the model counts the timer callbacks that have been delivered (\<open>fuel\<close>);
  \<open>n\<close> is the number of callbacks that ran before, and \<open>Pending\<close> is a promise that
  has not settled after that many callbacks.
\<close>

datatype 'e promise = Pending | Resolved int 'e | Rejected int

fun intervalLoop ::
  "(int \<Rightarrow> 'e option) \<Rightarrow> int option \<Rightarrow> int \<Rightarrow> (nat \<Rightarrow> int) \<Rightarrow> nat \<Rightarrow> nat \<Rightarrow> 'e promise" where
  "intervalLoop query timeout startTime clock n 0 = Pending"
| "intervalLoop query timeout startTime clock n (Suc fuel) =
     (let now = clock (Suc n) in
      case query now of
        Some element \<Rightarrow> Resolved now element
      | None \<Rightarrow>
          (case timeout of
             None \<Rightarrow> intervalLoop query timeout startTime clock (Suc n) fuel
           | Some t \<Rightarrow>
               if now - startTime > t then Rejected now
               else intervalLoop query timeout startTime clock (Suc n) fuel))"

definition waitForElement ::
  "(int \<Rightarrow> 'e option) \<Rightarrow> int option \<Rightarrow> int \<Rightarrow> (nat \<Rightarrow> int) \<Rightarrow> nat \<Rightarrow> 'e promise" where
  "waitForElement query timeout startTime clock fuel =
     intervalLoop query timeout startTime clock 0 fuel"

text \<open>
  The platform runs the \<open>k\<close>-th callback of an interval of 100 no earlier than \<open>100 * k\<close>
  after the timer was installed, and later when it is busy. \<open>onTime\<close> is the clock of a
  platform that is never late; \<open>lateBy d\<close> is one that runs every callback \<open>d\<close> late.
\<close>

definition onTime :: "int \<Rightarrow> nat \<Rightarrow> int" where
  "onTime startTime k = startTime + 100 * int k"

definition lateBy :: "int \<Rightarrow> int \<Rightarrow> nat \<Rightarrow> int" where
  "lateBy d startTime k = startTime + 100 * int k + d"

section \<open>Utils.urlWatcher\<close>

text \<open>
  The watcher keeps \<^verbatim>\<open>previousUrl\<close> in its closure, initially the empty string. Its
  mutation observer callback compares \<^verbatim>\<open>window.location.href\<close> with it; when they
  differ it caches the old value, stores the new one and then calls the callback. A call is
  recorded with its two arguments and with the value \<^verbatim>\<open>previousUrl\<close> holds at the
  moment of the call.
\<close>

record urlWatcher_state =
  previousUrl :: string

record url_call =
  arg_url :: string
  arg_previous :: string
  stored_at_call :: string

definition urlWatcher :: urlWatcher_state where
  "urlWatcher = \<lparr>previousUrl = ''''\<rparr>"

definition urlObserver :: "string \<Rightarrow> urlWatcher_state \<Rightarrow> urlWatcher_state \<times> url_call list" where
  "urlObserver href st =
     (if href \<noteq> previousUrl st then
        let cachedPreviousUrl = previousUrl st;
            st' = st\<lparr>previousUrl := href\<rparr>
        in (st', [\<lparr>arg_url = href, arg_previous = cachedPreviousUrl,
                   stored_at_call = previousUrl st'\<rparr>])
      else (st, []))"

section \<open>Utils.debounceLeading\<close>

text \<open>
  The wrapper keeps one variable \<^verbatim>\<open>timer\<close>: undefined (\<open>None\<close>), or the handle of
  the pending timeout, modelled by the instant at which its callback is due. A call runs
  \<^verbatim>\<open>func\<close> when \<^verbatim>\<open>timer\<close> is undefined, cancels the pending timeout and sets a new
  one \<^verbatim>\<open>timeout\<close> units ahead. \<^verbatim>\<open>func\<close> acts on some state \<open>'w\<close> of the
  rest of the program.
\<close>

type_synonym timer = "nat option"

definition debounceLeading ::
  "('a \<Rightarrow> 'w \<Rightarrow> 'w) \<Rightarrow> nat \<Rightarrow> nat \<Rightarrow> 'a \<Rightarrow> timer \<times> 'w \<Rightarrow> timer \<times> 'w" where
  "debounceLeading func timeout now args = (\<lambda>(timer, w).
     let w' = (if timer = None then func args w else w)
     in (Some (now + timeout), w'))"

text \<open>
  The platform runs the timeout callback \<^verbatim>\<open>timer = undefined\<close> once the timeout is
  due. A callback due strictly before an invocation has run; one due strictly after has
  not. When both fall on the same instant the order is the platform's choice, given by
  \<open>timerFirst\<close>.
\<close>

definition runTimeout :: "bool \<Rightarrow> nat \<Rightarrow> timer \<Rightarrow> timer" where
  "runTimeout timerFirst now timer =
     (case timer of
        None \<Rightarrow> None
      | Some due \<Rightarrow> if due < now \<or> (timerFirst \<and> due = now) then None else Some due)"

definition invoke ::
  "('a \<Rightarrow> 'w \<Rightarrow> 'w) \<Rightarrow> nat \<Rightarrow> bool \<Rightarrow> nat \<Rightarrow> 'a \<Rightarrow> timer \<times> 'w \<Rightarrow> timer \<times> 'w" where
  "invoke func timeout timerFirst now args = (\<lambda>(timer, w).
     debounceLeading func timeout now args (runTimeout timerFirst now timer, w))"


text \<open>Queries used in the examples: one that never finds an element, one that always does.\<close>

definition neverMatches :: "int \<Rightarrow> nat option" where
  "neverMatches t = None"

definition alwaysMatches :: "int \<Rightarrow> nat option" where
  "alwaysMatches t = Some 7"

section \<open>The document tree\<close>

text \<open>
  A node is an element or a text node. \<open>nid\<close> is the identity of the node object: two
  nodes of one document are the same object exactly when their \<open>nid\<close> agree. An element
  carries what the code reads from it: its tag name, its classes, the text the platform
  reports as \<^verbatim>\<open>innerText\<close>, and its children. \<^verbatim>\<open>style.display\<close>, the one thing
  the code writes, is kept apart in a store indexed by \<open>nid\<close>.
\<close>

datatype node =
    Element (nid: nat) (tagName: string) (classList: "string list") (innerText: string)
      (childNodes: "node list")
  | Text (nid: nat)

fun subtree :: "node \<Rightarrow> node list" where
  "subtree (Element i tg cls txt kids) = Element i tg cls txt kids # concat (map subtree kids)"
| "subtree (Text i) = [Text i]"

fun descendants :: "node \<Rightarrow> node list" where
  "descendants (Element i tg cls txt kids) = concat (map subtree kids)"
| "descendants (Text i) = []"

fun isElement :: "node \<Rightarrow> bool" where
  "isElement (Element i tg cls txt kids) = True"
| "isElement (Text i) = False"

fun hasTag :: "string \<Rightarrow> node \<Rightarrow> bool" where
  "hasTag name (Element i tg cls txt kids) = (tg = name)"
| "hasTag name (Text i) = False"

fun hasClass :: "string \<Rightarrow> node \<Rightarrow> bool" where
  "hasClass name (Element i tg cls txt kids) = (name \<in> set cls)"
| "hasClass name (Text i) = False"

text \<open>
  A selector is a predicate on nodes. \<^verbatim>\<open>scope.querySelectorAll(selector)\<close> lists the
  matching elements below \<open>scope\<close> (never \<open>scope\<close> itself) in document order;
  \<^verbatim>\<open>querySelector\<close> gives the first of them or \<^verbatim>\<open>null\<close>.
\<close>

definition querySelectorAll :: "(node \<Rightarrow> bool) \<Rightarrow> node \<Rightarrow> node list" where
  "querySelectorAll selector scope = filter (\<lambda>n. isElement n \<and> selector n) (descendants scope)"

definition querySelector :: "(node \<Rightarrow> bool) \<Rightarrow> node \<Rightarrow> node option" where
  "querySelector selector scope =
     (case querySelectorAll selector scope of [] \<Rightarrow> None | n # ns \<Rightarrow> Some n)"

type_synonym styles = "nat \<Rightarrow> string"

section \<open>SalTalk.filterByPrice\<close>

text \<open>
  A JavaScript number is \<^verbatim>\<open>NaN\<close>, an infinity or a finite value; \<^verbatim>\<open><=\<close> is false
  as soon as one side is \<^verbatim>\<open>NaN\<close>. The argument \<^verbatim>\<open>maxPrice\<close> is \<^verbatim>\<open>null\<close>,
  \<^verbatim>\<open>undefined\<close> or a number.
\<close>

datatype number = NaN | NegInfinity | Finite real | Infinity

fun number_le :: "number \<Rightarrow> number \<Rightarrow> bool" where
  "number_le NaN y = False"
| "number_le x NaN = False"
| "number_le NegInfinity y = True"
| "number_le (Finite a) NegInfinity = False"
| "number_le (Finite a) (Finite b) = (a \<le> b)"
| "number_le (Finite a) Infinity = True"
| "number_le Infinity Infinity = True"
| "number_le Infinity y = False"

datatype jsvalue = Null | Undefined | Number number

text \<open>\<^verbatim>\<open>price <= maxPrice\<close>: \<^verbatim>\<open>null\<close> converts to 0 and \<^verbatim>\<open>undefined\<close> to \<^verbatim>\<open>NaN\<close>.\<close>

fun lessEq :: "number \<Rightarrow> jsvalue \<Rightarrow> bool" where
  "lessEq price (Number m) = number_le price m"
| "lessEq price Null = number_le price (Finite 0)"
| "lessEq price Undefined = False"

text \<open>\<^verbatim>\<open>text.replace("$", "")\<close> removes the first dollar sign.\<close>

fun replaceDollar :: "string \<Rightarrow> string" where
  "replaceDollar [] = []"
| "replaceDollar (c # cs) = (if c = CHR ''$'' then cs else c # replaceDollar cs)"

text \<open>
  The body of the first \<^verbatim>\<open>forEach\<close>, for one \<^verbatim>\<open>app-product-item\<close> element. The
  platform function \<^verbatim>\<open>parseFloat\<close> is a parameter.
\<close>

definition filterItem :: "(string \<Rightarrow> number) \<Rightarrow> jsvalue \<Rightarrow> node \<Rightarrow> styles \<Rightarrow> styles" where
  "filterItem parseFloat maxPrice elem display =
     (case querySelector (hasClass ''product-price'') elem of
        None \<Rightarrow> display
      | Some priceElem \<Rightarrow>
          let price = parseFloat (replaceDollar (innerText priceElem)) in
          if maxPrice = Null \<or> maxPrice = Undefined \<or> lessEq price maxPrice
          then display(nid elem := ''inline-block'')
          else display(nid elem := ''none''))"

definition filterItems :: "(string \<Rightarrow> number) \<Rightarrow> jsvalue \<Rightarrow> node \<Rightarrow> styles \<Rightarrow> styles" where
  "filterItems parseFloat maxPrice document display =
     fold (filterItem parseFloat maxPrice)
       (querySelectorAll (hasTag ''app-product-item'') document) display"

text \<open>The body of the second \<^verbatim>\<open>forEach\<close>, for one \<^verbatim>\<open>.product-container\<close> element.\<close>

definition filterContainer :: "node \<Rightarrow> styles \<Rightarrow> styles" where
  "filterContainer elem display =
     (let visibleProducts =
        length (filter (\<lambda>item. display (nid item) \<noteq> ''none'')
          (querySelectorAll (hasTag ''app-product-item'') elem))
      in if visibleProducts = 0 then display(nid elem := ''none'')
         else display(nid elem := ''block''))"

definition filterByPrice :: "(string \<Rightarrow> number) \<Rightarrow> jsvalue \<Rightarrow> node \<Rightarrow> styles \<Rightarrow> styles" where
  "filterByPrice parseFloat maxPrice document display =
     fold filterContainer (querySelectorAll (hasClass ''product-container'') document)
       (filterItems parseFloat maxPrice document display)"

text \<open>\<^verbatim>\<open>parseFloat\<close> on the price texts of the examples.\<close>

definition parseSample :: "string \<Rightarrow> number" where
  "parseSample s =
     (if s = ''12'' then Finite 12 else if s = ''8'' then Finite 8
      else if s = ''20'' then Finite 20 else NaN)"

definition unstyled :: styles where
  "unstyled i = ''''"

definition sampleMenu :: node where
  "sampleMenu =
     Element 0 ''body'' [] '''' [
       Element 1 ''div'' [''product-container''] '''' [
         Element 2 ''app-product-item'' [] ''''
           [Element 3 ''span'' [''product-price''] ''$12'' []],
         Element 4 ''app-product-item'' [] ''''
           [Element 5 ''span'' [''product-price''] ''$8'' []],
         Element 6 ''app-product-item'' [] ''''
           [Element 7 ''span'' [''product-price''] ''$20'' []]],
       Element 8 ''div'' [''product-container''] '''' [
         Element 9 ''app-product-item'' [] ''''
           [Element 10 ''span'' [''product-price''] ''market price'' []],
         Element 11 ''app-product-item'' [] '''' [Text 12]],
       Element 13 ''div'' [''product-container''] '''' []]"

section \<open>Utils.elementWatcher\<close>

text \<open>
  A mutation record has a type and the lists of added and removed nodes. The watcher's
  effects are the calls of its callback, recorded as (node, event kind), and the per-node
  observers it has created, each recorded by the node it observes. Modelled are the set-up
  loop, the observer of additions and the per-node observers; the observer of removals is
  a separate observer that shares nothing with them.
\<close>

datatype mutation =
  Mutation (mtype: string) (addedNodes: "node list") (removedNodes: "node list")

record watcher =
  calls :: "(nat \<times> string) list"
  observers :: "node list"

definition callback :: "node \<Rightarrow> string \<Rightarrow> watcher \<Rightarrow> watcher" where
  "callback node kind w = w\<lparr>calls := calls w @ [(nid node, kind)]\<rparr>"

text \<open>
  \<^verbatim>\<open>addModifiedObserver(elem)\<close> creates a new observer on \<open>elem\<close> each time it is
  called; it looks at nothing that was created before.
\<close>

definition addModifiedObserver :: "node \<Rightarrow> watcher \<Rightarrow> watcher" where
  "addModifiedObserver elem w = w\<lparr>observers := observers w @ [elem]\<rparr>"

text \<open>Set-up: the loop over \<^verbatim>\<open>document.body.querySelectorAll(selector)\<close>.\<close>

definition initNode :: "string list \<Rightarrow> node \<Rightarrow> watcher \<Rightarrow> watcher" where
  "initNode events node w =
     (let w1 = (if ''init'' \<in> set events then callback node ''init'' w else w)
      in if ''modified'' \<in> set events then addModifiedObserver node w1 else w1)"

definition elementWatcher :: "(node \<Rightarrow> bool) \<Rightarrow> string list \<Rightarrow> node \<Rightarrow> watcher" where
  "elementWatcher selector events body =
     fold (initNode events) (querySelectorAll selector body) \<lparr>calls = [], observers = []\<rparr>"

text \<open>
  The tree walker is created on the added node and shows elements only. Its current node
  starts at that node, and the loop \<^verbatim>\<open>while (walker.nextNode())\<close> moves before it
  looks: the nodes it looks at are the elements below the added node, in document order.
\<close>

definition treeWalker :: "node \<Rightarrow> node list" where
  "treeWalker node = filter isElement (descendants node)"

definition visitNode ::
  "(node \<Rightarrow> bool) \<Rightarrow> string list \<Rightarrow> node \<Rightarrow> node \<Rightarrow> watcher \<Rightarrow> watcher" where
  "visitNode selector events node currentNode w =
     (if selector currentNode then
        let w1 = (if ''added'' \<in> set events then callback node ''added'' w else w)
        in if ''modified'' \<in> set events then addModifiedObserver node w1 else w1
      else w)"

definition addedNode :: "(node \<Rightarrow> bool) \<Rightarrow> string list \<Rightarrow> node \<Rightarrow> watcher \<Rightarrow> watcher" where
  "addedNode selector events node w = fold (visitNode selector events node) (treeWalker node) w"

definition addedObserver ::
  "(node \<Rightarrow> bool) \<Rightarrow> string list \<Rightarrow> mutation list \<Rightarrow> watcher \<Rightarrow> watcher" where
  "addedObserver selector events mutations w =
     fold (\<lambda>mutation. fold (addedNode selector events) (addedNodes mutation))
       (filter (\<lambda>mutation. mtype mutation = ''childList'') mutations) w"




text \<open>Nodes of the examples.\<close>

definition emptyBody :: node where
  "emptyBody = Element 0 ''body'' [] '''' []"

definition menuTags :: node where
  "menuTags = Element 1 ''div'' [''menu-user-preferences-tags''] '''' []"

definition cartPanel :: node where
  "cartPanel = Element 1 ''div'' [] '''' [Element 2 ''div'' [''cart-items-box''] '''' []]"

section \<open>SalTalk.parseUrl and SalTalk.Cart.getData\<close>

text \<open>
  What the scrape of the cart and the parsing of the URL take from the platform is
  gathered in one record: the string and number functions, the text the platform
  reports as \<^verbatim>\<open>textContent\<close>, the currency formatter, and the two selectors with
  a descendant combinator, \<^verbatim>\<open>.remaining-budget .budget-price\<close> and
  \<^verbatim>\<open>.product-count-new input\<close>, as predicates on nodes.
\<close>

record platform =
  trimOf :: "string \<Rightarrow> string"
  parseIntOf :: "string \<Rightarrow> number"
  parseFloatOf :: "string \<Rightarrow> number"
  toStringOf :: "number \<Rightarrow> string"
  textContentOf :: "node \<Rightarrow> string"
  formatOf :: "number \<Rightarrow> string"
  budgetPriceSelector :: "node \<Rightarrow> bool"
  countInputSelector :: "node \<Rightarrow> bool"

datatype error = TypeError

text \<open>
  \<^verbatim>\<open>s.split(sep)\<close> for a separator of one character, and \<^verbatim>\<open>parts[i]\<close>, which is
  \<^verbatim>\<open>undefined\<close> (\<open>None\<close>) past the end. \<open>orUndefined\<close> is the string a value that
  may be \<^verbatim>\<open>undefined\<close> turns into where a string is expected.
\<close>

fun splitOn :: "char \<Rightarrow> string \<Rightarrow> string list" where
  "splitOn sep [] = [[]]"
| "splitOn sep (c # cs) =
     (if c = sep then [] # splitOn sep cs
      else (case splitOn sep cs of [] \<Rightarrow> [[c]] | p # ps \<Rightarrow> (c # p) # ps))"

definition itemAt :: "'a list \<Rightarrow> nat \<Rightarrow> 'a option" where
  "itemAt xs i = (if i < length xs then Some (xs ! i) else None)"

fun orUndefined :: "string option \<Rightarrow> string" where
  "orUndefined None = ''undefined''"
| "orUndefined (Some s) = s"

text \<open>
  \<^verbatim>\<open>SalTalk.parseUrl\<close>. The URL comes parsed by the platform (\<^verbatim>\<open>new URL\<close>): its
  path and its search parameters, \<open>None\<close> for a parameter that is not there. A parameter
  of the result is a number or a string.
\<close>

record location =
  pathname :: string
  searchParams :: "string \<Rightarrow> string option"

datatype param = NumberParam number | StringParam string

record parsedUrl =
  page :: string
  params :: "string \<Rightarrow> param option"

definition parseUrl :: "platform \<Rightarrow> location \<Rightarrow> parsedUrl" where
  "parseUrl P url =
     (if pathname url = ''/'' then
        (case (searchParams url ''date'', searchParams url ''shippingTime'') of
           (Some date, Some meal) \<Rightarrow>
             if date \<noteq> [] \<and> meal \<noteq> [] then
               \<lparr>page = pathname url,
                params = [
                  ''year'' \<mapsto> NumberParam (parseIntOf P (orUndefined (itemAt (splitOn CHR ''-'' date) 0))),
                  ''month'' \<mapsto> NumberParam (parseIntOf P (orUndefined (itemAt (splitOn CHR ''-'' date) 1))),
                  ''date'' \<mapsto> NumberParam (parseIntOf P (orUndefined (itemAt (splitOn CHR ''-'' date) 2))),
                  ''meal'' \<mapsto> StringParam meal]\<rparr>
             else \<lparr>page = pathname url, params = Map.empty\<rparr>
         | _ \<Rightarrow> \<lparr>page = pathname url, params = Map.empty\<rparr>)
      else \<lparr>page = pathname url, params = Map.empty\<rparr>)"

text \<open>A value inside a template literal.\<close>

fun template :: "platform \<Rightarrow> param option \<Rightarrow> string" where
  "template P None = ''undefined''"
| "template P (Some (NumberParam n)) = toStringOf P n"
| "template P (Some (StringParam s)) = s"

text \<open>
  \<^verbatim>\<open>SalTalk.Cart.getData\<close>. Reading a property of \<^verbatim>\<open>null\<close> or of
  \<^verbatim>\<open>undefined\<close> throws a \<^verbatim>\<open>TypeError\<close>: that happens when a sub-item lacks its
  title, its price or its count input, when a cart box lacks its shipping date or its
  budget price, and when the shipping date has no second word. The component reads only
  \<^verbatim>\<open>remainingBudget\<close> of an entry, so an entry is modelled by that number; of the
  loop over the sub-items the model keeps the reads that can throw.
\<close>

definition cartSubItem :: "platform \<Rightarrow> node \<Rightarrow> error + unit" where
  "cartSubItem P cartSubItemElem =
     (case querySelector (hasClass ''product-title'') cartSubItemElem of
        None \<Rightarrow> Inl TypeError
      | Some titleElem \<Rightarrow>
          (case querySelector (hasClass ''product-price'') cartSubItemElem of
             None \<Rightarrow> Inl TypeError
           | Some priceElem \<Rightarrow>
               (case querySelector (countInputSelector P) cartSubItemElem of
                  None \<Rightarrow> Inl TypeError
                | Some input \<Rightarrow> Inr ())))"

fun cartSubItems :: "platform \<Rightarrow> node list \<Rightarrow> error + unit" where
  "cartSubItems P [] = Inr ()"
| "cartSubItems P (e # es) =
     (case cartSubItem P e of Inl err \<Rightarrow> Inl err | Inr u \<Rightarrow> cartSubItems P es)"

definition cartItem :: "platform \<Rightarrow> node \<Rightarrow> error + (string \<times> number)" where
  "cartItem P cartItemElem =
     (case querySelector (hasClass ''cart-item-shipping-date'') cartItemElem of
        None \<Rightarrow> Inl TypeError
      | Some dateElem \<Rightarrow>
          let dateId = trimOf P (textContentOf P dateElem) in
          (case itemAt (splitOn CHR '' '' dateId) 1 of
             None \<Rightarrow> Inl TypeError
           | Some word \<Rightarrow>
               let datePart = trimOf P word;
                   month = parseIntOf P (orUndefined (itemAt (splitOn CHR ''/'' datePart) 0));
                   day = parseIntOf P (orUndefined (itemAt (splitOn CHR ''/'' datePart) 1));
                   meal = itemAt (splitOn CHR '' '' dateId) 2
               in (case querySelector (budgetPriceSelector P) cartItemElem of
                     None \<Rightarrow> Inl TypeError
                   | Some remainingBudgetElem \<Rightarrow>
                       let remainingBudget =
                             parseFloatOf P (replaceDollar (innerText remainingBudgetElem))
                       in (case cartSubItems P
                                  (querySelectorAll (hasClass ''cart-sub-item'') cartItemElem) of
                             Inl err \<Rightarrow> Inl err
                           | Inr u \<Rightarrow>
                               Inr (toStringOf P month @ ''-'' @ toStringOf P day @ ''-'' @
                                      orUndefined meal,
                                    remainingBudget)))))"

fun cartItems ::
  "platform \<Rightarrow> node list \<Rightarrow> (string \<Rightarrow> number option) \<Rightarrow> error + (string \<Rightarrow> number option)" where
  "cartItems P [] cartData = Inr cartData"
| "cartItems P (e # es) cartData =
     (case cartItem P e of
        Inl err \<Rightarrow> Inl err
      | Inr (key, remainingBudget) \<Rightarrow> cartItems P es (cartData(key \<mapsto> remainingBudget)))"

definition getData :: "platform \<Rightarrow> node \<Rightarrow> error + (string \<Rightarrow> number option)" where
  "getData P document =
     cartItems P (querySelectorAll (hasClass ''cart-items-box'') document) Map.empty"

section \<open>FilterByBudgetComponent\<close>

text \<open>
  The component holds \<^verbatim>\<open>enabled\<close>, \<^verbatim>\<open>ui\<close> and \<^verbatim>\<open>budget\<close>, and the two
  wrappers made by \<^verbatim>\<open>Utils.debounceLeading\<close> hold one timer each. \<open>filtered\<close> records
  the argument of every call of \<^verbatim>\<open>SalTalk.filterByPrice\<close>, in order.
\<close>

record checkBox =
  parent :: nat
  isChecked :: bool
  labelText :: string

record component =
  enabled :: bool
  ui :: "checkBox option"
  budget :: jsvalue
  productsTimer :: timer
  cartTimer :: timer
  filtered :: "jsvalue list"

definition FilterByBudgetComponent :: "bool \<Rightarrow> component" where
  "FilterByBudgetComponent defaultState =
     \<lparr>enabled = defaultState, ui = None, budget = Null, productsTimer = None,
      cartTimer = None, filtered = []\<rparr>"

text \<open>\<^verbatim>\<open>#labelText\<close>; the currency formatter is a parameter.\<close>

definition labelTextOf :: "(number \<Rightarrow> string) \<Rightarrow> component \<Rightarrow> string" where
  "labelTextOf format c =
     ''Filter by budget'' @
     (case budget c of Number b \<Rightarrow> '' ('' @ format b @ '' available)'' | _ \<Rightarrow> '''')"

text \<open>
  \<^verbatim>\<open>#applyFilter\<close>, on the URL and the document of the moment. The scrape of the cart
  comes first: when it throws, the method is left there, with the component as it was and
  the filter not run. The result is the component and the exception, if one was thrown.
  \<open>mealKey\<close> is the \<^verbatim>\<open>id\<close> built from the URL, and \<open>remainingBudgetOf\<close> is
  \<^verbatim>\<open>cartData[id]?.remainingBudget\<close>.
\<close>

definition mealKey :: "platform \<Rightarrow> location \<Rightarrow> string" where
  "mealKey P url =
     (let parsedURL = parseUrl P url
      in template P (params parsedURL ''month'') @ ''-'' @
         template P (params parsedURL ''date'') @ ''-'' @
         template P (params parsedURL ''meal''))"

definition remainingBudgetOf :: "(string \<Rightarrow> number option) \<Rightarrow> string \<Rightarrow> jsvalue" where
  "remainingBudgetOf cartData key =
     (case cartData key of None \<Rightarrow> Undefined | Some b \<Rightarrow> Number b)"

definition applyFilter ::
  "platform \<Rightarrow> location \<Rightarrow> node \<Rightarrow> component \<Rightarrow> component \<times> error option" where
  "applyFilter P url document c =
     (case getData P document of
        Inl err \<Rightarrow> (c, Some err)
      | Inr cartData \<Rightarrow>
          let key = mealKey P url;
              c1 = c\<lparr>budget :=
                     (if enabled c then remainingBudgetOf cartData key else Null)\<rparr>;
              c2 = c1\<lparr>ui := map_option
                             (\<lambda>box. box\<lparr>labelText := labelTextOf (formatOf P) c1\<rparr>) (ui c1)\<rparr>
          in (c2\<lparr>filtered := filtered c2 @ [budget c2]\<rparr>, None))"

text \<open>
  \<^verbatim>\<open>Utils.debounceLeading\<close> around a function that may throw. An exception thrown by
  \<^verbatim>\<open>func\<close> leaves the wrapper before \<^verbatim>\<open>clearTimeout\<close> and \<^verbatim>\<open>setTimeout\<close>: the
  timer stays as it was, and the exception goes on to the caller.
\<close>

definition debounceLeadingThrowing ::
  "('a \<Rightarrow> 'w \<Rightarrow> 'w \<times> error option) \<Rightarrow> nat \<Rightarrow> nat \<Rightarrow> 'a \<Rightarrow> timer \<times> 'w
     \<Rightarrow> (timer \<times> 'w) \<times> error option" where
  "debounceLeadingThrowing func timeout now args = (\<lambda>(timer, w).
     case (if timer = None then func args w else (w, None)) of
       (w', Some err) \<Rightarrow> ((timer, w'), Some err)
     | (w', None) \<Rightarrow> ((Some (now + timeout), w'), None))"

definition invokeThrowing ::
  "('a \<Rightarrow> 'w \<Rightarrow> 'w \<times> error option) \<Rightarrow> nat \<Rightarrow> bool \<Rightarrow> nat \<Rightarrow> 'a \<Rightarrow> timer \<times> 'w
     \<Rightarrow> (timer \<times> 'w) \<times> error option" where
  "invokeThrowing func timeout timerFirst now args = (\<lambda>(timer, w).
     debounceLeadingThrowing func timeout now args (runTimeout timerFirst now timer, w))"

text \<open>
  The callbacks registered by the constructor. The URL callback
  \<^verbatim>\<open>(_url) => this.#applyFilter\<close> and the product-box callback
  \<^verbatim>\<open>(_elem, _modification) => this.#applyFilter\<close> evaluate to the method and call
  nothing. The menu callback replaces the check box. The cart callback calls
  \<^verbatim>\<open>this.#applyFilter()\<close>.
\<close>

definition urlCallback :: "component \<Rightarrow> component" where
  "urlCallback c = c"

definition menuCallback :: "(number \<Rightarrow> string) \<Rightarrow> node \<Rightarrow> component \<Rightarrow> component" where
  "menuCallback format elem c =
     c\<lparr>ui := Some \<lparr>parent = nid elem, isChecked = enabled c,
                    labelText = labelTextOf format c\<rparr>\<rparr>"

definition productsCallback :: "node \<Rightarrow> component \<Rightarrow> component" where
  "productsCallback elem c = c"

definition cartCallback ::
  "platform \<Rightarrow> location \<Rightarrow> node \<Rightarrow> node \<Rightarrow> component \<Rightarrow> component \<times> error option" where
  "cartCallback P url document elem c = applyFilter P url document c"

text \<open>
  The two debounced callbacks, as the element watcher calls them, each with its own timer,
  both with the default 500.
\<close>

definition productsWatcher :: "bool \<Rightarrow> nat \<Rightarrow> node \<Rightarrow> component \<Rightarrow> component" where
  "productsWatcher timerFirst now elem c =
     (case invoke productsCallback 500 timerFirst now elem (productsTimer c, c) of
        (timer, c') \<Rightarrow> c'\<lparr>productsTimer := timer\<rparr>)"

definition cartWatcher ::
  "platform \<Rightarrow> location \<Rightarrow> node \<Rightarrow> bool \<Rightarrow> nat \<Rightarrow> node \<Rightarrow> component
     \<Rightarrow> component \<times> error option" where
  "cartWatcher P url document timerFirst now elem c =
     (case invokeThrowing (cartCallback P url document) 500 timerFirst now elem (cartTimer c, c) of
        ((timer, c'), thrown) \<Rightarrow> (c'\<lparr>cartTimer := timer\<rparr>, thrown))"

text \<open>
  \<^verbatim>\<open>CheckBoxComponent.#checkboxChanged\<close> followed by the component's
  \<^verbatim>\<open>changedCallback\<close>, which sets \<^verbatim>\<open>enabled\<close> and then calls
  \<^verbatim>\<open>this.#applyFilter()\<close>.
\<close>

definition checkboxChanged ::
  "platform \<Rightarrow> location \<Rightarrow> node \<Rightarrow> bool \<Rightarrow> component \<Rightarrow> component \<times> error option" where
  "checkboxChanged P url document checked c =
     (let c1 = c\<lparr>ui := map_option (\<lambda>box. box\<lparr>isChecked := checked\<rparr>) (ui c)\<rparr>;
          c2 = c1\<lparr>enabled := checked\<rparr>
      in applyFilter P url document c2)"

text \<open>
  The page of the examples: a cart box for the dinner of 3 May with 15.50 left and one
  sub-item, the URL of that meal, and the platform functions on the strings that occur.
\<close>

definition formatSample :: "number \<Rightarrow> string" where
  "formatSample b = (if b = Finite (31 / 2) then ''$15.50'' else ''$0.00'')"

definition samplePlatform :: platform where
  "samplePlatform =
     \<lparr>trimOf = (\<lambda>s. s),
      parseIntOf = (\<lambda>s. if s = ''5'' \<or> s = ''05'' then Finite 5
                        else if s = ''3'' \<or> s = ''03'' then Finite 3
                        else if s = ''2023'' then Finite 2023 else NaN),
      parseFloatOf = (\<lambda>s. if s = ''15.50'' then Finite (31 / 2) else NaN),
      toStringOf = (\<lambda>n. if n = Finite 5 then ''5'' else if n = Finite 3 then ''3''
                        else ''NaN''),
      textContentOf = (\<lambda>n. if nid n = 3 then ''Mon 5/3 Dinner'' else ''''),
      formatOf = formatSample,
      budgetPriceSelector = hasClass ''budget-price'',
      countInputSelector = hasTag ''input''\<rparr>"

definition sampleUrl :: location where
  "sampleUrl =
     \<lparr>pathname = ''/'',
      searchParams = [''date'' \<mapsto> ''2023-05-03'', ''shippingTime'' \<mapsto> ''Dinner'']\<rparr>"

definition sampleCart :: node where
  "sampleCart =
     Element 0 ''body'' [] '''' [
       Element 1 ''div'' [] '''' [
         Element 2 ''div'' [''cart-items-box''] '''' [
           Element 3 ''span'' [''cart-item-shipping-date''] ''Mon 5/3 Dinner'' [],
           Element 4 ''div'' [''remaining-budget''] ''''
             [Element 5 ''span'' [''budget-price''] ''$15.50'' []],
           Element 6 ''div'' [''cart-sub-item''] '''' [
             Element 7 ''span'' [''product-title''] ''Salad'' [],
             Element 8 ''span'' [''product-price''] ''$4.50'' [],
             Element 9 ''div'' [''product-count-new''] '''' [Element 10 ''input'' [] '''' []]]]]]"

section \<open>Properties of waitForElement\<close>

text \<open>While the query misses and the timeout is not exceeded, the loop only passes time.\<close>

lemma intervalLoop_skip:
  assumes "\<forall>t. query t = None"
      and "\<forall>j. n < j \<and> j \<le> n + k \<longrightarrow> clock j - startTime \<le> timeout"
  shows "intervalLoop query (Some timeout) startTime clock n (k + fuel) =
         intervalLoop query (Some timeout) startTime clock (n + k) fuel"
  using assms
proof (induction k arbitrary: n)
  case 0
  then show ?case by simp
next
  case (Suc k)
  have first: "clock (Suc n) - startTime \<le> timeout" using Suc.prems(2) by simp
  have rest: "\<forall>j. Suc n < j \<and> j \<le> Suc n + k \<longrightarrow> clock j - startTime \<le> timeout"
    using Suc.prems(2) by simp
  show ?case
    using Suc.prems(1) first Suc.IH[OF Suc.prems(1) rest] by simp
qed

lemma intervalLoop_reject:
  assumes "\<forall>t. query t = None"
      and "clock (Suc n) - startTime > timeout"
  shows "intervalLoop query (Some timeout) startTime clock n (Suc fuel) = Rejected (clock (Suc n))"
  using assms by simp

text \<open>
  With a query that never hits, the promise is rejected by callback \<open>m\<close>, the first one
  whose clock reading is more than \<open>timeout\<close> after the call.
\<close>

lemma waitForElement_first_late_poll:
  assumes q: "\<forall>t. query t = None"
      and before: "\<forall>j. 1 \<le> j \<and> j < m \<longrightarrow> clock j - startTime \<le> timeout"
      and at: "clock m - startTime > timeout" and m: "1 \<le> m"
  shows "waitForElement query (Some timeout) startTime clock fuel =
           (if fuel < m then Pending else Rejected (clock m))"
proof (cases "fuel < m")
  case True
  have "\<forall>j. 0 < j \<and> j \<le> 0 + fuel \<longrightarrow> clock j - startTime \<le> timeout"
    using before True by auto
  from intervalLoop_skip[OF q this, of 0] show ?thesis
    using True by (simp add: waitForElement_def)
next
  case False
  obtain k where k: "m = Suc k" using m by (cases m) auto
  define r where "r = fuel - m"
  have r: "fuel = k + Suc r" using False k by (simp add: r_def)
  have "\<forall>j. 0 < j \<and> j \<le> 0 + k \<longrightarrow> clock j - startTime \<le> timeout"
    using before k by auto
  from intervalLoop_skip[OF q this, of "Suc r"] intervalLoop_reject[OF q, of timeout clock k startTime r]
  show ?thesis using False at k r by (simp add: waitForElement_def)
qed

lemma intervalLoop_miss_forever:
  "\<forall>t. query t = None \<Longrightarrow> intervalLoop query None startTime clock n fuel = Pending"
  by (induction fuel arbitrary: n) simp_all

text \<open>A settled promise carries the clock reading of one of the callbacks.\<close>

lemma intervalLoop_settle_time:
  "intervalLoop query timeout startTime clock n fuel = Resolved t e \<Longrightarrow> \<exists>j>n. t = clock j"
  "intervalLoop query timeout startTime clock n fuel = Rejected t \<Longrightarrow> \<exists>j>n. t = clock j"
proof (induction fuel arbitrary: n)
  case 0
  { case 1 then show ?case by simp }
  { case 2 then show ?case by simp }
next
  case (Suc fuel)
  { case 1
    then show ?case using Suc.IH(1)[of "Suc n"]
      by (auto simp: Let_def split: option.splits if_splits intro: Suc_lessD) }
  { case 2
    then show ?case using Suc.IH(2)[of "Suc n"]
      by (auto simp: Let_def split: option.splits if_splits intro: Suc_lessD) }
qed

lemma intervalLoop_late_queries:
  "\<forall>j>n. query (clock j) = query' (clock j) \<Longrightarrow>
   intervalLoop query timeout startTime clock n fuel =
   intervalLoop query' timeout startTime clock n fuel"
proof (induction fuel arbitrary: n)
  case 0
  then show ?case by simp
next
  case (Suc fuel)
  have "query (clock (Suc n)) = query' (clock (Suc n))" using Suc.prems by simp
  moreover have "intervalLoop query timeout startTime clock (Suc n) fuel =
     intervalLoop query' timeout startTime clock (Suc n) fuel"
    using Suc.prems by (intro Suc.IH) simp
  ultimately show ?case by (auto simp: Let_def split: option.splits)
qed

text \<open>
  C6, as stated, fails. Take a timeout of 500, a query that never hits and a platform that
  is never late. The fifth callback reads an elapsed time of 500; the test
  \<^verbatim>\<open>Date.now() - startTime > timeout\<close> is strict, so the promise is still pending
  after it. The sixth callback, at elapsed time 600, rejects: no number of callbacks gives a
  rejection at a time from 500 up to, but not including, 600.
\<close>

theorem waitForElement_timeout_counterexample:
  "waitForElement neverMatches (Some 500) 0 (onTime 0) 5 = Pending \<and>
   waitForElement neverMatches (Some 500) 0 (onTime 0) 6 = Rejected 600 \<and>
   \<not> (\<exists>fuel t. waitForElement neverMatches (Some 500) 0 (onTime 0) fuel = Rejected t \<and>
          500 \<le> t \<and> t < 600)"
proof -
  have q: "\<forall>t. neverMatches t = None" by (simp add: neverMatches_def)
  have before: "\<forall>j. 1 \<le> j \<and> j < 6 \<longrightarrow> onTime 0 j - 0 \<le> 500"
    by (auto simp: onTime_def)
  have at: "500 < onTime 0 6 - 0" and v: "onTime 0 6 = 600" by (simp_all add: onTime_def)
  have "waitForElement neverMatches (Some 500) 0 (onTime 0) fuel =
          (if fuel < 6 then Pending else Rejected 600)" for fuel
    using waitForElement_first_late_poll[OF q before at, of fuel] by (simp add: v)
  then show ?thesis by simp
qed

text \<open>
  C6, amended. For a query that never hits, \<^verbatim>\<open>waitForElement(selector, 500)\<close> is
  rejected by the first timer callback that reads an elapsed time strictly more than 500,
  and is pending until then, whatever the clock. On a platform whose callbacks are never
  early and less than one interval late, that is the fifth callback when it reads more
  than 500, at an elapsed time more than 500 and less than 600, and the sixth callback
  otherwise, at an elapsed time of at least 600 and less than 700. On a platform that is
  never late it is the sixth, at exactly 600. Without a timeout argument the promise is
  pending after any number of callbacks, whatever the clock.
\<close>

theorem waitForElement_timeout_500:
  assumes "\<forall>t. query t = None"
  shows "(1 \<le> m \<and> (\<forall>j. 1 \<le> j \<and> j < m \<longrightarrow> clock j - startTime \<le> 500) \<and>
          500 < clock m - startTime \<longrightarrow>
            waitForElement query (Some 500) startTime clock fuel =
              (if fuel < m then Pending else Rejected (clock m))) \<and>
         ((\<forall>k. startTime + 100 * int k \<le> clock k \<and> clock k < startTime + 100 * int k + 100) \<longrightarrow>
            waitForElement query (Some 500) startTime clock fuel =
              (if fuel < 5 then Pending
               else if 500 < clock 5 - startTime then Rejected (clock 5)
               else if fuel = 5 then Pending else Rejected (clock 6)) \<and>
            (500 < clock 5 - startTime \<longrightarrow> clock 5 - startTime < 600) \<and>
            600 \<le> clock 6 - startTime \<and> clock 6 - startTime < 700) \<and>
         waitForElement query (Some 500) startTime (onTime startTime) fuel =
           (if fuel \<le> 5 then Pending else Rejected (startTime + 600)) \<and>
         waitForElement query None startTime clock fuel = Pending"
proof -
  have general: "waitForElement query (Some 500) startTime clock fuel =
              (if fuel < m then Pending else Rejected (clock m))"
    if "1 \<le> m" "\<forall>j. 1 \<le> j \<and> j < m \<longrightarrow> clock j - startTime \<le> 500"
       "500 < clock m - startTime" for m clock fuel
    using waitForElement_first_late_poll[OF assms that(2) that(3) that(1)] .
  have bounded: "waitForElement query (Some 500) startTime clock fuel =
              (if fuel < 5 then Pending
               else if 500 < clock 5 - startTime then Rejected (clock 5)
               else if fuel = 5 then Pending else Rejected (clock 6)) \<and>
            (500 < clock 5 - startTime \<longrightarrow> clock 5 - startTime < 600) \<and>
            600 \<le> clock 6 - startTime \<and> clock 6 - startTime < 700"
    if c: "\<forall>k. startTime + 100 * int k \<le> clock k \<and> clock k < startTime + 100 * int k + 100"
  proof -
    have early: "clock j - startTime \<le> 500" if "j < 5" for j
    proof -
      have "int j \<le> 4" using that by simp
      then show ?thesis using c[rule_format, of j] by linarith
    qed
    have c5: "clock 5 - startTime < 600" and c5': "500 \<le> clock 5 - startTime"
      using c[rule_format, of 5] by simp_all
    have c6: "600 \<le> clock 6 - startTime" "clock 6 - startTime < 700"
      using c[rule_format, of 6] by simp_all
    show ?thesis
    proof (cases "500 < clock 5 - startTime")
      case True
      have "\<forall>j. 1 \<le> j \<and> j < 5 \<longrightarrow> clock j - startTime \<le> 500" using early by simp
      from general[OF _ this True] show ?thesis using True c5 c6 by simp
    next
      case False
      have "\<forall>j. 1 \<le> j \<and> j < 6 \<longrightarrow> clock j - startTime \<le> 500"
      proof (intro allI impI)
        fix j :: nat assume "1 \<le> j \<and> j < 6"
        then have "j < 5 \<or> j = 5" by auto
        then show "clock j - startTime \<le> 500" using early False by auto
      qed
      moreover have "500 < clock 6 - startTime" using c6 by simp
      ultimately have "waitForElement query (Some 500) startTime clock fuel =
              (if fuel < 6 then Pending else Rejected (clock 6))"
        using general[of 6 clock fuel] by simp
      then show ?thesis using False c5 c6 by auto
    qed
  qed
  have exact: "waitForElement query (Some 500) startTime (onTime startTime) fuel =
           (if fuel \<le> 5 then Pending else Rejected (startTime + 600))"
  proof -
    have before: "\<forall>j. 1 \<le> j \<and> j < 6 \<longrightarrow> onTime startTime j - startTime \<le> 500"
      by (auto simp: onTime_def)
    have at: "500 < onTime startTime 6 - startTime"
      and v: "onTime startTime 6 = startTime + 600" by (simp_all add: onTime_def)
    have "waitForElement query (Some 500) startTime (onTime startTime) fuel =
            (if fuel < 6 then Pending else Rejected (onTime startTime 6))"
      by (rule general[OF _ before at]) simp
    then show ?thesis unfolding v by auto
  qed
  have never: "waitForElement query None startTime clock fuel = Pending"
    using intervalLoop_miss_forever[OF assms] by (simp add: waitForElement_def)
  show ?thesis using general bounded exact never by blast
qed

theorem waitForElement_timeout_500_witness:
  "(\<forall>t. neverMatches t = None) \<and>
   waitForElement neverMatches (Some 500) 0 (lateBy 1 0) 7 = Rejected 501 \<and>
   waitForElement neverMatches (Some 500) 0 (onTime 0) 7 = Rejected 600 \<and>
   waitForElement neverMatches None 0 (lateBy 1 0) 7 = Pending"
proof -
  have q: "\<forall>t. neverMatches t = None" by (simp add: neverMatches_def)
  have c: "\<forall>k. 0 + 100 * int k \<le> lateBy 1 0 k \<and> lateBy 1 0 k < 0 + 100 * int k + 100"
    by (simp add: lateBy_def)
  have v: "lateBy 1 0 5 = 501" by (simp add: lateBy_def)
  note T = waitForElement_timeout_500[OF q, where startTime=0 and clock="lateBy 1 0"
             and fuel=7 and m=5]
  from T c have "waitForElement neverMatches (Some 500) 0 (lateBy 1 0) 7 =
       (if (7::nat) < 5 then Pending
        else if 500 < lateBy 1 0 5 - 0 then Rejected (lateBy 1 0 5)
        else if (7::nat) = 5 then Pending else Rejected (lateBy 1 0 6))"
    by blast
  then have a: "waitForElement neverMatches (Some 500) 0 (lateBy 1 0) 7 = Rejected 501"
    by (simp add: v)
  from T have "waitForElement neverMatches (Some 500) 0 (onTime 0) 7 =
       (if (7::nat) \<le> 5 then Pending else Rejected (0 + 600))"
    by blast
  then have b: "waitForElement neverMatches (Some 500) 0 (onTime 0) 7 = Rejected 600"
    by simp
  from T have d: "waitForElement neverMatches None 0 (lateBy 1 0) 7 = Pending"
    by blast
  show ?thesis by (intro conjI q a b d)
qed

text \<open>
  C10. On a platform whose timer callbacks are never early, the promise never settles in
  the call itself: before the first timer callback it is pending, whatever the query gives
  at the moment of the call; a resolution or a rejection carries a time at least 100 units
  after the call; a query that hits at the first callback resolves exactly then; and the
  outcome does not depend on what the query gives before 100 units have passed.
\<close>

theorem waitForElement_never_synchronous:
  assumes "\<forall>k. startTime + 100 * int k \<le> clock k"
  shows "waitForElement query timeout startTime clock 0 = Pending \<and>
   (waitForElement query timeout startTime clock fuel = Resolved t e \<longrightarrow> startTime + 100 \<le> t) \<and>
   (waitForElement query timeout startTime clock fuel = Rejected t \<longrightarrow> startTime + 100 \<le> t) \<and>
   (query (clock 1) = Some e \<longrightarrow>
      waitForElement query timeout startTime clock (Suc fuel) = Resolved (clock 1) e) \<and>
   ((\<forall>t. startTime + 100 \<le> t \<longrightarrow> query t = query' t) \<longrightarrow>
      waitForElement query timeout startTime clock fuel =
      waitForElement query' timeout startTime clock fuel)"
proof -
  have late: "startTime + 100 \<le> clock j" if "0 < j" for j
  proof -
    have "1 \<le> int j" using that by simp
    then show ?thesis using assms[rule_format, of j] by linarith
  qed
  have res: "startTime + 100 \<le> t"
    if "waitForElement query timeout startTime clock fuel = Resolved t e"
    using intervalLoop_settle_time(1)[of query timeout startTime clock 0 fuel t e] that late
    by (auto simp: waitForElement_def)
  have rej: "startTime + 100 \<le> t"
    if "waitForElement query timeout startTime clock fuel = Rejected t"
    using intervalLoop_settle_time(2)[of query timeout startTime clock 0 fuel t] that late
    by (auto simp: waitForElement_def)
  have indep: "waitForElement query timeout startTime clock fuel =
      waitForElement query' timeout startTime clock fuel"
    if "\<forall>t. startTime + 100 \<le> t \<longrightarrow> query t = query' t"
    unfolding waitForElement_def
    by (rule intervalLoop_late_queries) (use that late in auto)
  show ?thesis using res rej indep by (auto simp: waitForElement_def)
qed

theorem waitForElement_never_synchronous_witness:
  "(\<forall>k. 0 + 100 * int k \<le> onTime 0 k) \<and>
   alwaysMatches 0 = Some 7 \<and> alwaysMatches (onTime 0 1) = Some 7 \<and>
   onTime 0 1 = 100 \<and>
   waitForElement alwaysMatches None 0 (onTime 0) 0 = Pending \<and>
   waitForElement alwaysMatches None 0 (onTime 0) (Suc 2) = Resolved 100 7"
proof -
  have c: "\<forall>k. 0 + 100 * int k \<le> onTime 0 k" by (simp add: onTime_def)
  have m0: "alwaysMatches 0 = Some 7" and m1: "alwaysMatches (onTime 0 1) = Some 7"
    by (simp_all add: alwaysMatches_def)
  have v: "onTime 0 1 = 100" by (simp add: onTime_def)
  note T = waitForElement_never_synchronous[OF c, where query=alwaysMatches and timeout=None
             and fuel=2 and e=7]
  from T have a: "waitForElement alwaysMatches None 0 (onTime 0) 0 = Pending" by blast
  from T m1 have "waitForElement alwaysMatches None 0 (onTime 0) (Suc 2) =
       Resolved (onTime 0 1) 7" by blast
  then have b: "waitForElement alwaysMatches None 0 (onTime 0) (Suc 2) = Resolved 100 7"
    unfolding v .
  show ?thesis by (intro conjI c m0 m1 v a b)
qed

section \<open>Properties of urlWatcher\<close>

text \<open>
  C9. On a mutation notification the callback is called if and only if the current location
  differs from the stored one. When it is called, it is called once, with the new location
  first and the old one second, and the stored value already is the new location at the
  moment of the call. When the location is unchanged nothing is called and nothing is
  stored.
\<close>

theorem urlObserver_fires_iff_changed:
  "(snd (urlObserver href st) \<noteq> [] \<longleftrightarrow> href \<noteq> previousUrl st) \<and>
   (href \<noteq> previousUrl st \<longrightarrow>
      snd (urlObserver href st) =
        [\<lparr>arg_url = href, arg_previous = previousUrl st, stored_at_call = href\<rparr>] \<and>
      previousUrl (fst (urlObserver href st)) = href) \<and>
   (href = previousUrl st \<longrightarrow> urlObserver href st = (st, []))"
  by (simp add: urlObserver_def Let_def)

theorem urlObserver_fires_iff_changed_witness:
  "''/?date=2023-05-03'' \<noteq> previousUrl urlWatcher \<and>
   snd (urlObserver ''/?date=2023-05-03'' urlWatcher) =
     [\<lparr>arg_url = ''/?date=2023-05-03'', arg_previous = '''',
       stored_at_call = ''/?date=2023-05-03''\<rparr>] \<and>
   urlObserver ''/'' \<lparr>previousUrl = ''/''\<rparr> = (\<lparr>previousUrl = ''/''\<rparr>, [])"
  using urlObserver_fires_iff_changed[of "''/?date=2023-05-03''" urlWatcher]
        urlObserver_fires_iff_changed[of "''/''" "\<lparr>previousUrl = ''/''\<rparr>"]
  by (simp add: urlWatcher_def)

section \<open>Properties of debounceLeading\<close>



section \<open>Facts about the document tree\<close>

lemma subtree_descendants: "subtree n = n # descendants n"
  by (cases n) simp_all

lemma subtree_trans: "m \<in> set (subtree n) \<Longrightarrow> k \<in> set (subtree m) \<Longrightarrow> k \<in> set (subtree n)"
proof (induction n arbitrary: m k)
  case (Element i tg cls tx kids)
  show ?case
  proof (cases "m = Element i tg cls tx kids")
    case True
    then show ?thesis using Element.prems by simp
  next
    case False
    then obtain c where c: "c \<in> set kids" "m \<in> set (subtree c)"
      using Element.prems(1) by auto
    then have "k \<in> set (subtree c)" using Element.IH Element.prems(2) by blast
    then show ?thesis using c by auto
  qed
next
  case (Text i)
  then show ?case by simp
qed

lemma querySelectorAll_subset: "set (querySelectorAll sel n) \<subseteq> set (subtree n)"
  by (auto simp: querySelectorAll_def subtree_descendants)

lemma querySelectorAll_nested:
  "c \<in> set (subtree doc) \<Longrightarrow> x \<in> set (querySelectorAll sel c) \<Longrightarrow> x \<in> set (subtree doc)"
  using querySelectorAll_subset subtree_trans by blast

lemma querySelectorAll_sel: "x \<in> set (querySelectorAll sel n) \<Longrightarrow> sel x \<and> isElement x"
  by (simp add: querySelectorAll_def)

lemma distinct_querySelectorAll:
  "distinct (map nid (subtree doc)) \<Longrightarrow> distinct (map nid (querySelectorAll sel doc))"
  by (simp add: querySelectorAll_def subtree_descendants distinct_map_filter)

lemma nid_inj:
  "distinct (map nid (subtree doc)) \<Longrightarrow> x \<in> set (subtree doc) \<Longrightarrow> y \<in> set (subtree doc) \<Longrightarrow>
   nid x = nid y \<Longrightarrow> x = y"
  by (meson distinct_map inj_onD)

section \<open>Properties of filterByPrice\<close>

subsection \<open>The loop over the items\<close>

lemma filterItem_other: "k \<noteq> nid e \<Longrightarrow> filterItem pf m e d k = d k"
  by (simp add: filterItem_def Let_def split: option.splits)

lemma filterItem_self:
  "filterItem pf m e d (nid e) =
     (case querySelector (hasClass ''product-price'') e of
        None \<Rightarrow> d (nid e)
      | Some priceElem \<Rightarrow>
          if m = Null \<or> m = Undefined \<or> lessEq (pf (replaceDollar (innerText priceElem))) m
          then ''inline-block'' else ''none'')"
  by (simp add: filterItem_def Let_def split: option.splits)

lemma fold_filterItem_notin:
  "k \<notin> nid ` set xs \<Longrightarrow> fold (filterItem pf m) xs d k = d k"
  by (induction xs arbitrary: d) (auto simp: filterItem_other)

text \<open>
  Every element of the list gets the display its own step gives it: no other step writes
  it, and no step reads a display.
\<close>

lemma fold_filterItem_in:
  "distinct (map nid xs) \<Longrightarrow> e \<in> set xs \<Longrightarrow>
   fold (filterItem pf m) xs d (nid e) =
     (case querySelector (hasClass ''product-price'') e of
        None \<Rightarrow> d (nid e)
      | Some priceElem \<Rightarrow>
          if m = Null \<or> m = Undefined \<or> lessEq (pf (replaceDollar (innerText priceElem))) m
          then ''inline-block'' else ''none'')"
proof (induction xs arbitrary: d)
  case Nil
  then show ?case by simp
next
  case (Cons x xs)
  show ?case
  proof (cases "e = x")
    case True
    then have "nid e \<notin> nid ` set xs" using Cons.prems(1) by auto
    then show ?thesis using True
      by (simp add: fold_filterItem_notin filterItem_self split: option.splits)
  next
    case False
    then have e: "e \<in> set xs" using Cons.prems(2) by simp
    moreover have "nid e \<noteq> nid x" using Cons.prems(1) e
      by (metis distinct.simps(2) image_eqI list.simps(9) set_map)
    ultimately show ?thesis using Cons.IH[of "filterItem pf m x d"] Cons.prems(1)
      by (simp add: filterItem_other split: option.splits)
  qed
qed

lemma filterItems_item:
  assumes "distinct (map nid (subtree document))"
      and "item \<in> set (querySelectorAll (hasTag ''app-product-item'') document)"
  shows "filterItems pf m document d (nid item) = filterItem pf m item d (nid item)"
  unfolding filterItems_def
  using fold_filterItem_in[OF distinct_querySelectorAll[OF assms(1)] assms(2)]
  by (simp add: filterItem_self)

subsection \<open>The loop over the containers\<close>

lemma filterContainer_other: "k \<noteq> nid c \<Longrightarrow> filterContainer c d k = d k"
  by (simp add: filterContainer_def Let_def)

lemma fold_filterContainer_notin:
  "k \<notin> nid ` set cs \<Longrightarrow> fold filterContainer cs d k = d k"
  by (induction cs arbitrary: d) (auto simp: filterContainer_other)

lemma filterContainer_self:
  "filterContainer c d (nid c) =
     (if \<exists>item \<in> set (querySelectorAll (hasTag ''app-product-item'') c). d (nid item) \<noteq> ''none''
      then ''block'' else ''none'')"
  by (auto simp: filterContainer_def Let_def filter_empty_conv)

lemma filterContainer_cong:
  "\<forall>item \<in> set (querySelectorAll (hasTag ''app-product-item'') c). d (nid item) = d' (nid item) \<Longrightarrow>
   filterContainer c d (nid c) = filterContainer c d' (nid c)"
  by (simp add: filterContainer_self)

text \<open>
  When no container step writes the display of an item that some container step reads,
  every container gets the display its own step computes from the displays the loop starts
  with.
\<close>

lemma fold_filterContainer_in:
  assumes "distinct (map nid cs)" "c \<in> set cs"
      and "\<forall>x \<in> set cs. \<forall>item \<in> set (querySelectorAll (hasTag ''app-product-item'') x).
             nid item \<notin> nid ` set cs"
  shows "fold filterContainer cs d (nid c) = filterContainer c d (nid c)"
  using assms
proof (induction cs arbitrary: d)
  case Nil
  then show ?case by simp
next
  case (Cons x xs)
  show ?case
  proof (cases "c = x")
    case True
    then have "nid c \<notin> nid ` set xs" using Cons.prems(1) by auto
    then show ?thesis using True by (simp add: fold_filterContainer_notin)
  next
    case False
    then have c: "c \<in> set xs" using Cons.prems(2) by simp
    have side: "\<forall>y \<in> set xs. \<forall>item \<in> set (querySelectorAll (hasTag ''app-product-item'') y).
             nid item \<notin> nid ` set xs"
      using Cons.prems(3) by auto
    have "fold filterContainer xs (filterContainer x d) (nid c) =
          filterContainer c (filterContainer x d) (nid c)"
      using Cons.IH[OF _ c side] Cons.prems(1) by simp
    also have "\<dots> = filterContainer c d (nid c)"
    proof (rule filterContainer_cong, rule ballI)
      fix item assume "item \<in> set (querySelectorAll (hasTag ''app-product-item'') c)"
      then have "nid item \<noteq> nid x" using Cons.prems(3) c by auto
      then show "filterContainer x d (nid item) = d (nid item)"
        by (simp add: filterContainer_other)
    qed
    finally show ?thesis by simp
  qed
qed

lemma container_ids_apart:
  assumes ids: "distinct (map nid (subtree document))"
      and x: "x \<in> set (subtree document)" "\<not> hasClass ''product-container'' x"
  shows "nid x \<notin> nid ` set (querySelectorAll (hasClass ''product-container'') document)"
proof
  assume "nid x \<in> nid ` set (querySelectorAll (hasClass ''product-container'') document)"
  then obtain c where c: "c \<in> set (querySelectorAll (hasClass ''product-container'') document)"
    "nid x = nid c" by auto
  then have "c \<in> set (subtree document)" using querySelectorAll_subset by blast
  then have "x = c" using nid_inj[OF ids x(1) _ c(2)] by simp
  then show False using x(2) querySelectorAll_sel[OF c(1)] by simp
qed

text \<open>The second loop leaves the display of every node that is not a container alone.\<close>

lemma filterByPrice_item:
  assumes "distinct (map nid (subtree document))"
      and "x \<in> set (subtree document)" "\<not> hasClass ''product-container'' x"
  shows "filterByPrice pf m document d (nid x) = filterItems pf m document d (nid x)"
  unfolding filterByPrice_def
  using container_ids_apart[OF assms] by (rule fold_filterContainer_notin)

lemma filterByPrice_container:
  assumes ids: "distinct (map nid (subtree document))"
      and apart: "\<forall>n \<in> set (subtree document).
                    \<not> (hasTag ''app-product-item'' n \<and> hasClass ''product-container'' n)"
      and c: "container \<in> set (querySelectorAll (hasClass ''product-container'') document)"
  shows "filterByPrice pf m document d (nid container) =
     (if \<exists>item \<in> set (querySelectorAll (hasTag ''app-product-item'') container).
           filterByPrice pf m document d (nid item) \<noteq> ''none''
      then ''block'' else ''none'')"
proof -
  let ?cs = "querySelectorAll (hasClass ''product-container'') document"
  let ?d1 = "filterItems pf m document d"
  have member: "x \<in> set (subtree document) \<and> \<not> hasClass ''product-container'' x"
    if "y \<in> set ?cs" "x \<in> set (querySelectorAll (hasTag ''app-product-item'') y)" for x y
  proof -
    have "y \<in> set (subtree document)" using that(1) querySelectorAll_subset by blast
    then have "x \<in> set (subtree document)" using that(2) querySelectorAll_nested by blast
    moreover have "hasTag ''app-product-item'' x" using querySelectorAll_sel[OF that(2)] by simp
    ultimately show ?thesis using apart by blast
  qed
  have side: "\<forall>y \<in> set ?cs. \<forall>item \<in> set (querySelectorAll (hasTag ''app-product-item'') y).
                nid item \<notin> nid ` set ?cs"
    using member container_ids_apart[OF ids] by blast
  have "filterByPrice pf m document d (nid container) = filterContainer container ?d1 (nid container)"
    unfolding filterByPrice_def
    by (rule fold_filterContainer_in[OF distinct_querySelectorAll[OF ids] c side])
  moreover have "filterByPrice pf m document d (nid item) = ?d1 (nid item)"
    if "item \<in> set (querySelectorAll (hasTag ''app-product-item'') container)" for item
    using member[OF c that] filterByPrice_item[OF ids] by blast
  ultimately show ?thesis by (simp add: filterContainer_self)
qed

lemmas sample_defs = sampleMenu_def querySelectorAll_def querySelector_def parseSample_def

subsection \<open>The claims on the filter pass\<close>

text \<open>
  C1. Take a document whose nodes are distinct objects, one of its
  \<^verbatim>\<open>app-product-item\<close> elements, its price element and the number \<open>p\<close> that
  \<^verbatim>\<open>parseFloat\<close> reads from the price text. When \<^verbatim>\<open>maxPrice\<close> is a number \<open>m\<close>,
  the loop over the items leaves the item shown (\<^verbatim>\<open>inline-block\<close>) if and only if
  \<open>p <= m\<close>, and hidden (\<^verbatim>\<open>none\<close>) if and only if not. When \<^verbatim>\<open>maxPrice\<close> is
  \<^verbatim>\<open>null\<close> or \<^verbatim>\<open>undefined\<close>, the item is shown. The loop over the containers
  that follows does not touch the item. The statement needs no assumption on \<open>p\<close>, so it
  holds in particular for every price that parses.
\<close>

theorem filterByPrice_threshold:
  assumes "distinct (map nid (subtree document))"
      and "item \<in> set (querySelectorAll (hasTag ''app-product-item'') document)"
      and "querySelector (hasClass ''product-price'') item = Some priceElem"
      and "parseFloat (replaceDollar (innerText priceElem)) = p"
  shows "(maxPrice = Number m \<longrightarrow>
            (filterItems parseFloat maxPrice document display (nid item) = ''inline-block''
               \<longleftrightarrow> number_le p m) \<and>
            (filterItems parseFloat maxPrice document display (nid item) = ''none''
               \<longleftrightarrow> \<not> number_le p m)) \<and>
         (maxPrice = Null \<or> maxPrice = Undefined \<longrightarrow>
            filterItems parseFloat maxPrice document display (nid item) = ''inline-block'') \<and>
         (\<not> hasClass ''product-container'' item \<longrightarrow>
            filterByPrice parseFloat maxPrice document display (nid item) =
            filterItems parseFloat maxPrice document display (nid item))"
proof -
  have "item \<in> set (subtree document)" using assms(2) querySelectorAll_subset by blast
  then have full: "\<not> hasClass ''product-container'' item \<longrightarrow>
            filterByPrice parseFloat maxPrice document display (nid item) =
            filterItems parseFloat maxPrice document display (nid item)"
    using filterByPrice_item[OF assms(1), of item parseFloat maxPrice display] by simp
  have "filterItems parseFloat maxPrice document display (nid item) =
          (if maxPrice = Null \<or> maxPrice = Undefined \<or> lessEq p maxPrice
           then ''inline-block'' else ''none'')"
    using filterItems_item[OF assms(1,2), of parseFloat maxPrice display] assms(3,4)
    by (simp add: filterItem_self)
  then show ?thesis using full by (cases maxPrice) (auto split: if_splits)
qed

theorem filterByPrice_threshold_witness:
  "distinct (map nid (subtree sampleMenu)) \<and>
   Element 4 ''app-product-item'' [] '''' [Element 5 ''span'' [''product-price''] ''$8'' []]
     \<in> set (querySelectorAll (hasTag ''app-product-item'') sampleMenu) \<and>
   querySelector (hasClass ''product-price'')
     (Element 4 ''app-product-item'' [] '''' [Element 5 ''span'' [''product-price''] ''$8'' []])
     = Some (Element 5 ''span'' [''product-price''] ''$8'' []) \<and>
   parseSample (replaceDollar ''$8'') = Finite 8 \<and>
   number_le (Finite 8) (Finite 10) \<and>
   filterItems parseSample (Number (Finite 10)) sampleMenu unstyled 4 = ''inline-block'' \<and>
   filterByPrice parseSample (Number (Finite 10)) sampleMenu unstyled 4 = ''inline-block''"
proof -
  let ?price = "Element 5 ''span'' [''product-price''] ''$8'' []"
  let ?item = "Element 4 ''app-product-item'' [] '''' [?price]"
  have h1: "distinct (map nid (subtree sampleMenu))" by (simp add: sampleMenu_def)
  have h2: "?item \<in> set (querySelectorAll (hasTag ''app-product-item'') sampleMenu)"
    by (simp add: sample_defs)
  have h3: "querySelector (hasClass ''product-price'') ?item = Some ?price"
    by (simp add: sample_defs)
  have h4: "parseSample (replaceDollar (innerText ?price)) = Finite 8"
    by (simp add: sample_defs)
  show ?thesis
    using filterByPrice_threshold[where parseFloat=parseSample and p="Finite 8"
            and maxPrice="Number (Finite 10)" and m="Finite 10" and display=unstyled,
            OF h1 h2 h3 h4]
          h1 h2 h3 h4
    by simp
qed

text \<open>
  C2. Take a document whose nodes are distinct objects and in which no element is both an
  \<^verbatim>\<open>app-product-item\<close> and a \<^verbatim>\<open>.product-container\<close>: containers group items, they
  are not items. After the whole pass, every container is shown (\<^verbatim>\<open>block\<close>) if and
  only if at least one of the items below it is not hidden, and hidden (\<^verbatim>\<open>none\<close>) if
  and only if none is; a container with no item below it is hidden. The displays compared
  are the ones the pass ends with. The second assumption is used: the second loop writes
  the display of each container after the containers around it have counted their items.
\<close>

theorem filterByPrice_container_cascade:
  assumes "distinct (map nid (subtree document))"
      and "\<forall>n \<in> set (subtree document).
              \<not> (hasTag ''app-product-item'' n \<and> hasClass ''product-container'' n)"
      and "container \<in> set (querySelectorAll (hasClass ''product-container'') document)"
  shows "(filterByPrice parseFloat maxPrice document display (nid container) = ''block'' \<longleftrightarrow>
            (\<exists>item \<in> set (querySelectorAll (hasTag ''app-product-item'') container).
               filterByPrice parseFloat maxPrice document display (nid item) \<noteq> ''none'')) \<and>
         (filterByPrice parseFloat maxPrice document display (nid container) = ''none'' \<longleftrightarrow>
            \<not> (\<exists>item \<in> set (querySelectorAll (hasTag ''app-product-item'') container).
               filterByPrice parseFloat maxPrice document display (nid item) \<noteq> ''none'')) \<and>
         (querySelectorAll (hasTag ''app-product-item'') container = [] \<longrightarrow>
            filterByPrice parseFloat maxPrice document display (nid container) = ''none'')"
  using filterByPrice_container[OF assms, of parseFloat maxPrice display]
  by (auto split: if_splits)

theorem filterByPrice_container_cascade_witness:
  "distinct (map nid (subtree sampleMenu)) \<and>
   Element 13 ''div'' [''product-container''] '''' []
     \<in> set (querySelectorAll (hasClass ''product-container'') sampleMenu) \<and>
   querySelectorAll (hasTag ''app-product-item'')
     (Element 13 ''div'' [''product-container''] '''' []) = [] \<and>
   filterByPrice parseSample (Number (Finite 10)) sampleMenu unstyled 13 = ''none''"
proof -
  let ?box = "Element 13 ''div'' [''product-container''] '''' []"
  have h1: "distinct (map nid (subtree sampleMenu))" by (simp add: sampleMenu_def)
  have h2: "\<forall>n \<in> set (subtree sampleMenu).
      \<not> (hasTag ''app-product-item'' n \<and> hasClass ''product-container'' n)"
    by (simp add: sampleMenu_def)
  have h3: "?box \<in> set (querySelectorAll (hasClass ''product-container'') sampleMenu)"
    by (simp add: sample_defs)
  have h4: "querySelectorAll (hasTag ''app-product-item'') ?box = []"
    by (simp add: sample_defs)
  show ?thesis
    using filterByPrice_container_cascade[where parseFloat=parseSample
            and maxPrice="Number (Finite 10)" and display=unstyled, OF h1 h2 h3]
          h1 h3 h4
    by simp
qed

text \<open>
  The scenario of three items priced 12, 8 and 20 under a budget of 10: hidden, shown,
  hidden, and their container shown.
\<close>

lemma sampleMenu_scenario:
  "map (filterByPrice parseSample (Number (Finite 10)) sampleMenu unstyled) [2, 4, 6, 1] =
     [''none'', ''inline-block'', ''none'', ''block'']"
  by (simp add: sample_defs unstyled_def filterByPrice_def filterItems_def filterItem_def
      filterContainer_def)

text \<open>
  C7, as stated, fails in its second part. The price text of item 9 of the sample menu does
  not parse: \<^verbatim>\<open>parseFloat\<close> gives \<^verbatim>\<open>NaN\<close>. The item is not left out of the
  decision. \<^verbatim>\<open>NaN <= 10\<close> is false, so the pass takes the else branch and hides the
  item, whose display was empty before.
\<close>

theorem filterItems_unparsed_counterexample:
  "parseSample (replaceDollar ''market price'') = NaN \<and>
   unstyled 9 = '''' \<and>
   filterItems parseSample (Number (Finite 10)) sampleMenu unstyled 9 = ''none'' \<and>
   filterByPrice parseSample (Number (Finite 10)) sampleMenu unstyled 9 = ''none'' \<and>
   filterByPrice parseSample (Number (Finite 10)) sampleMenu unstyled 9 \<noteq> unstyled 9"
  by (simp add: sample_defs unstyled_def filterByPrice_def filterItems_def filterItem_def
      filterContainer_def)

text \<open>
  C7, amended. In a document whose nodes are distinct objects, an item without a price
  element keeps the display it had. An item whose price text parses to \<^verbatim>\<open>NaN\<close> is
  hidden when \<^verbatim>\<open>maxPrice\<close> is a number. No item stops the pass: every item ends with
  the display that the loop body, run on that item alone, gives it, whatever the other
  items are; and the loop over the containers does not touch it.
\<close>

theorem filterItems_missing_or_unparsed:
  assumes "distinct (map nid (subtree document))"
      and "item \<in> set (querySelectorAll (hasTag ''app-product-item'') document)"
  shows "(querySelector (hasClass ''product-price'') item = None \<longrightarrow>
            filterItems parseFloat maxPrice document display (nid item) = display (nid item)) \<and>
         (querySelector (hasClass ''product-price'') item = Some priceElem \<and>
          parseFloat (replaceDollar (innerText priceElem)) = NaN \<and> maxPrice = Number m \<longrightarrow>
            filterItems parseFloat maxPrice document display (nid item) = ''none'') \<and>
         filterItems parseFloat maxPrice document display (nid item) =
           filterItem parseFloat maxPrice item display (nid item) \<and>
         (\<not> hasClass ''product-container'' item \<longrightarrow>
            filterByPrice parseFloat maxPrice document display (nid item) =
            filterItem parseFloat maxPrice item display (nid item))"
proof -
  have "item \<in> set (subtree document)" using assms(2) querySelectorAll_subset by blast
  then show ?thesis
    using filterItems_item[OF assms(1,2), of parseFloat maxPrice display]
          filterByPrice_item[OF assms(1), of item parseFloat maxPrice display]
    by (auto simp: filterItem_self)
qed

theorem filterItems_missing_or_unparsed_witness:
  "distinct (map nid (subtree sampleMenu)) \<and>
   Element 11 ''app-product-item'' [] '''' [Text 12]
     \<in> set (querySelectorAll (hasTag ''app-product-item'') sampleMenu) \<and>
   querySelector (hasClass ''product-price'') (Element 11 ''app-product-item'' [] '''' [Text 12])
     = None \<and>
   filterItems parseSample (Number (Finite 10)) sampleMenu unstyled 11 = unstyled 11 \<and>
   Element 9 ''app-product-item'' [] ''''
       [Element 10 ''span'' [''product-price''] ''market price'' []]
     \<in> set (querySelectorAll (hasTag ''app-product-item'') sampleMenu) \<and>
   querySelector (hasClass ''product-price'')
     (Element 9 ''app-product-item'' [] ''''
       [Element 10 ''span'' [''product-price''] ''market price'' []])
     = Some (Element 10 ''span'' [''product-price''] ''market price'' []) \<and>
   parseSample (replaceDollar ''market price'') = NaN \<and>
   filterItems parseSample (Number (Finite 10)) sampleMenu unstyled 9 = ''none''"
proof -
  let ?bare = "Element 11 ''app-product-item'' [] '''' [Text 12]"
  let ?price = "Element 10 ''span'' [''product-price''] ''market price'' []"
  let ?item = "Element 9 ''app-product-item'' [] '''' [?price]"
  have h1: "distinct (map nid (subtree sampleMenu))" by (simp add: sampleMenu_def)
  have h2: "?bare \<in> set (querySelectorAll (hasTag ''app-product-item'') sampleMenu)"
    by (simp add: sample_defs)
  have h3: "querySelector (hasClass ''product-price'') ?bare = None"
    by (simp add: sample_defs)
  have h4: "?item \<in> set (querySelectorAll (hasTag ''app-product-item'') sampleMenu)"
    by (simp add: sample_defs)
  have h5: "querySelector (hasClass ''product-price'') ?item = Some ?price"
    by (simp add: sample_defs)
  have h6: "parseSample (replaceDollar (innerText ?price)) = NaN"
    by (simp add: sample_defs)
  show ?thesis
    using filterItems_missing_or_unparsed[where parseFloat=parseSample
            and maxPrice="Number (Finite 10)" and display=unstyled, OF h1 h2]
          filterItems_missing_or_unparsed[where parseFloat=parseSample and priceElem="?price"
            and maxPrice="Number (Finite 10)" and m="Finite 10" and display=unstyled, OF h1 h4]
          h1 h2 h3 h4 h5 h6
    by simp
qed

section \<open>Properties of elementWatcher\<close>


lemma fold_initNode_calls:
  "calls (fold (initNode events) xs w) =
     calls w @ (if ''init'' \<in> set events then map (\<lambda>n. (nid n, ''init'')) xs else [])"
  by (induction xs arbitrary: w)
     (simp_all add: initNode_def Let_def callback_def addModifiedObserver_def)


lemma fold_visitNode_calls:
  "calls (fold (visitNode sel events node) xs w) =
     calls w @ (if ''added'' \<in> set events
                then map (\<lambda>cur. (nid node, ''added'')) (filter sel xs) else [])"
  by (induction xs arbitrary: w)
     (simp_all add: visitNode_def Let_def callback_def addModifiedObserver_def)


lemma fold_addedNode_calls:
  "calls (fold (addedNode sel events) ns w) =
     calls w @ (if ''added'' \<in> set events
        then concat (map (\<lambda>node. map (\<lambda>cur. (nid node, ''added'')) (filter sel (treeWalker node))) ns)
        else [])"
  by (induction ns arbitrary: w) (simp_all add: addedNode_def fold_visitNode_calls)


lemma fold_mutations_calls:
  "calls (fold (\<lambda>mutation. fold (addedNode sel events) (addedNodes mutation)) ms w) =
     calls w @ (if ''added'' \<in> set events
        then concat (map (\<lambda>node. map (\<lambda>cur. (nid node, ''added'')) (filter sel (treeWalker node)))
               (concat (map addedNodes ms))) else [])"
  by (induction ms arbitrary: w) (simp_all add: fold_addedNode_calls)




text \<open>
  What the observer of additions calls: for every \<^verbatim>\<open>childList\<close> record and every
  added node, one \<^verbatim>\<open>callback(node, "added")\<close> per matching element strictly below the
  added node, and none for the added node itself.
\<close>

lemma addedObserver_calls:
  "calls (addedObserver selector events mutations w) =
     calls w @ (if ''added'' \<in> set events
        then concat (map (\<lambda>node. map (\<lambda>cur. (nid node, ''added'')) (filter selector (treeWalker node)))
               (concat (map addedNodes (filter (\<lambda>mutation. mtype mutation = ''childList'') mutations))))
        else [])"
  by (simp add: addedObserver_def fold_mutations_calls)

lemma addedNode_childless:
  "addedNode selector events (Element i tg cls tx []) w = w"
  by (simp add: addedNode_def treeWalker_def)

text \<open>
  C3 says that the walk covers the inserted node itself, so that an inserted node matching
  the selector triggers \<^verbatim>\<open>callback(node, "added")\<close> even when nothing below it
  matches. The code does not do that. The menu watcher of the component is registered for
  \<^verbatim>\<open>.menu-user-preferences-tags\<close> with the events \<^verbatim>\<open>init\<close> and \<^verbatim>\<open>added\<close>;
  when a childless element of that class is inserted, the walker's first
  \<^verbatim>\<open>nextNode()\<close> already leaves the inserted node, finds nothing, and the callback
  is never called.
\<close>

theorem addedObserver_skips_inserted_root:
  "hasClass ''menu-user-preferences-tags'' menuTags \<and>
   calls (addedObserver (hasClass ''menu-user-preferences-tags'') [''init'', ''added'']
            [Mutation ''childList'' [menuTags] []]
            (elementWatcher (hasClass ''menu-user-preferences-tags'') [''init'', ''added'']
               emptyBody)) = []"
  by (simp add: addedObserver_def addedNode_def treeWalker_def menuTags_def emptyBody_def
      elementWatcher_def querySelectorAll_def)




section \<open>Properties of FilterByBudgetComponent\<close>

text \<open>A function that never throws is debounced as \<open>debounceLeading\<close> says.\<close>

lemma debounceLeadingThrowing_returns:
  "debounceLeadingThrowing (\<lambda>args w. (func args w, None)) timeout now args s =
     (debounceLeading func timeout now args s, None)"
  by (cases s) (simp add: debounceLeadingThrowing_def debounceLeading_def Let_def)

lemma applyFilter_returns:
  "getData P document = Inr cartData \<Longrightarrow>
   applyFilter P url document c =
     (c\<lparr>budget := (if enabled c then remainingBudgetOf cartData (mealKey P url) else Null),
        ui := map_option
                (\<lambda>box. box\<lparr>labelText := labelTextOf (formatOf P)
                   (c\<lparr>budget := (if enabled c then remainingBudgetOf cartData (mealKey P url)
                                  else Null)\<rparr>)\<rparr>) (ui c),
        filtered := filtered c @ [if enabled c then remainingBudgetOf cartData (mealKey P url)
                                   else Null]\<rparr>, None)"
  by (simp add: applyFilter_def Let_def)

lemma applyFilter_throws:
  "getData P document = Inl err \<Longrightarrow> applyFilter P url document c = (c, Some err)"
  by (simp add: applyFilter_def)

lemmas cart_defs = getData_def cartItem_def cartSubItem_def querySelectorAll_def
  querySelector_def sampleCart_def samplePlatform_def sampleUrl_def mealKey_def parseUrl_def
  itemAt_def remainingBudgetOf_def cartPanel_def

text \<open>
  C5, as stated, fails. A change of the menu list replaces the check box and does nothing
  else: the filter is not run and the budget is not recomputed, although a recomputation
  on the sample page would give 15.50. And a report of the cart region does not always
  run the filter: when the page holds a cart box without a shipping date, the scrape of the
  cart throws, and the report leaves the component as it was, with no filter run and no
  timer set.
\<close>

theorem menu_change_runs_no_filter_counterexample:
  "filtered (menuCallback formatSample menuTags (FilterByBudgetComponent True)) = [] \<and>
   budget (menuCallback formatSample menuTags (FilterByBudgetComponent True)) = Null \<and>
   budget (fst (applyFilter samplePlatform sampleUrl sampleCart (FilterByBudgetComponent True)))
     = Number (Finite (31 / 2)) \<and>
   cartWatcher samplePlatform sampleUrl cartPanel True 0 cartPanel (FilterByBudgetComponent True)
     = (FilterByBudgetComponent True, Some TypeError)"
  by (simp add: menuCallback_def FilterByBudgetComponent_def applyFilter_def Let_def
      cart_defs cartWatcher_def invokeThrowing_def
      debounceLeadingThrowing_def runTimeout_def cartCallback_def)

text \<open>
  The callbacks for the URL and for the product box name \<^verbatim>\<open>this.#applyFilter\<close>
  without calling it, next to the cart callback, which calls it: a change of the URL or of
  the product box never runs the filter either, debounced or not.
\<close>

lemma products_and_url_callbacks_skip_filter:
  "filtered (productsWatcher timerFirst now elem c) = filtered c \<and>
   budget (productsWatcher timerFirst now elem c) = budget c \<and>
   urlCallback c = c"
  by (simp add: productsWatcher_def invoke_def debounceLeading_def productsCallback_def
      urlCallback_def Let_def)

text \<open>
  C5, amended. Every report of the cart region that the element watcher makes to the
  component goes through the leading debounce. When the cart wrapper is idle, or its timer
  was due before the report, the scrape of the cart runs: if it returns, the budget is
  recomputed (the remaining budget of the meal of the URL when enabled, \<^verbatim>\<open>null\<close>
  otherwise, with \<open>enabled\<close> unchanged), the filter runs once with it and the timer is
  set 500 ahead; if it throws, nothing is recomputed, the filter does not run and no timer
  is set. While the timer is still ahead, nothing is recomputed, the filter does not run
  and the timer is set 500 ahead. A change of the toggle sets \<open>enabled\<close> and runs
  \<^verbatim>\<open>#applyFilter\<close> at once, whatever the timers are: the budget is recomputed and the
  filter runs if the scrape returns, and neither happens if it throws. A change of the
  menu list runs no filter and leaves the budget.
\<close>

theorem component_cart_and_toggle_run_filter:
  "((cartTimer c = None \<or> (\<exists>due. cartTimer c = Some due \<and> due < now)) \<and>
    getData P document = Inr cartData \<longrightarrow>
      snd (cartWatcher P url document timerFirst now elem c) = None \<and>
      budget (fst (cartWatcher P url document timerFirst now elem c)) =
        (if enabled c then remainingBudgetOf cartData (mealKey P url) else Null) \<and>
      filtered (fst (cartWatcher P url document timerFirst now elem c)) =
        filtered c @ [if enabled c then remainingBudgetOf cartData (mealKey P url) else Null] \<and>
      enabled (fst (cartWatcher P url document timerFirst now elem c)) = enabled c \<and>
      cartTimer (fst (cartWatcher P url document timerFirst now elem c)) = Some (now + 500)) \<and>
   ((cartTimer c = None \<or> (\<exists>due. cartTimer c = Some due \<and> due < now)) \<and>
    getData P document = Inl err \<longrightarrow>
      snd (cartWatcher P url document timerFirst now elem c) = Some err \<and>
      budget (fst (cartWatcher P url document timerFirst now elem c)) = budget c \<and>
      filtered (fst (cartWatcher P url document timerFirst now elem c)) = filtered c \<and>
      cartTimer (fst (cartWatcher P url document timerFirst now elem c)) = None) \<and>
   ((\<exists>due. cartTimer c = Some due \<and> now < due) \<longrightarrow>
      snd (cartWatcher P url document timerFirst now elem c) = None \<and>
      budget (fst (cartWatcher P url document timerFirst now elem c)) = budget c \<and>
      filtered (fst (cartWatcher P url document timerFirst now elem c)) = filtered c \<and>
      cartTimer (fst (cartWatcher P url document timerFirst now elem c)) = Some (now + 500)) \<and>
   enabled (fst (checkboxChanged P url document checked c)) = checked \<and>
   (getData P document = Inr cartData \<longrightarrow>
      snd (checkboxChanged P url document checked c) = None \<and>
      budget (fst (checkboxChanged P url document checked c)) =
        (if checked then remainingBudgetOf cartData (mealKey P url) else Null) \<and>
      filtered (fst (checkboxChanged P url document checked c)) =
        filtered c @ [if checked then remainingBudgetOf cartData (mealKey P url) else Null]) \<and>
   (getData P document = Inl err \<longrightarrow>
      snd (checkboxChanged P url document checked c) = Some err \<and>
      budget (fst (checkboxChanged P url document checked c)) = budget c \<and>
      filtered (fst (checkboxChanged P url document checked c)) = filtered c) \<and>
   filtered (menuCallback format elem c) = filtered c \<and>
   budget (menuCallback format elem c) = budget c"
proof -
  have idle_returns: "cartWatcher P url document timerFirst now elem c =
      (fst (applyFilter P url document c)\<lparr>cartTimer := Some (now + 500)\<rparr>, None)"
    if "cartTimer c = None \<or> (\<exists>due. cartTimer c = Some due \<and> due < now)"
       "getData P document = Inr cartData"
    using that
    by (auto simp: cartWatcher_def invokeThrowing_def debounceLeadingThrowing_def
        runTimeout_def cartCallback_def applyFilter_returns)
  have idle_throws: "cartWatcher P url document timerFirst now elem c =
      (c\<lparr>cartTimer := None\<rparr>, Some err)"
    if "cartTimer c = None \<or> (\<exists>due. cartTimer c = Some due \<and> due < now)"
       "getData P document = Inl err"
    using that
    by (auto simp: cartWatcher_def invokeThrowing_def debounceLeadingThrowing_def
        runTimeout_def cartCallback_def applyFilter_throws)
  have cooling: "cartWatcher P url document timerFirst now elem c =
      (c\<lparr>cartTimer := Some (now + 500)\<rparr>, None)"
    if "\<exists>due. cartTimer c = Some due \<and> now < due"
    using that
    by (auto simp: cartWatcher_def invokeThrowing_def debounceLeadingThrowing_def
        runTimeout_def)
  have toggle_enabled: "enabled (fst (checkboxChanged P url document checked c)) = checked"
    by (cases "getData P document")
       (simp_all add: checkboxChanged_def Let_def applyFilter_returns applyFilter_throws)
  have toggle_returns: "snd (checkboxChanged P url document checked c) = None \<and>
      budget (fst (checkboxChanged P url document checked c)) =
        (if checked then remainingBudgetOf cartData (mealKey P url) else Null) \<and>
      filtered (fst (checkboxChanged P url document checked c)) =
        filtered c @ [if checked then remainingBudgetOf cartData (mealKey P url) else Null]"
    if "getData P document = Inr cartData"
    using that by (simp add: checkboxChanged_def Let_def applyFilter_returns)
  have toggle_throws: "snd (checkboxChanged P url document checked c) = Some err \<and>
      budget (fst (checkboxChanged P url document checked c)) = budget c \<and>
      filtered (fst (checkboxChanged P url document checked c)) = filtered c"
    if "getData P document = Inl err"
    using that by (simp add: checkboxChanged_def Let_def applyFilter_throws)
  have menu: "filtered (menuCallback format elem c) = filtered c \<and>
      budget (menuCallback format elem c) = budget c"
    by (simp add: menuCallback_def)
  show ?thesis
    using idle_returns idle_throws cooling toggle_enabled toggle_returns toggle_throws menu
    by (simp add: applyFilter_returns)
qed

theorem component_cart_and_toggle_run_filter_witness:
  "cartTimer (FilterByBudgetComponent True) = None \<and>
   getData samplePlatform sampleCart = Inr [''5-3-Dinner'' \<mapsto> Finite (31 / 2)] \<and>
   mealKey samplePlatform sampleUrl = ''5-3-Dinner'' \<and>
   snd (cartWatcher samplePlatform sampleUrl sampleCart True 0 sampleCart
          (FilterByBudgetComponent True)) = None \<and>
   filtered (fst (cartWatcher samplePlatform sampleUrl sampleCart True 0 sampleCart
          (FilterByBudgetComponent True))) = [Number (Finite (31 / 2))] \<and>
   cartTimer (fst (cartWatcher samplePlatform sampleUrl sampleCart True 0 sampleCart
          (FilterByBudgetComponent True))) = Some 500 \<and>
   getData samplePlatform cartPanel = Inl TypeError \<and>
   snd (cartWatcher samplePlatform sampleUrl cartPanel True 0 cartPanel
          (FilterByBudgetComponent True)) = Some TypeError \<and>
   filtered (fst (cartWatcher samplePlatform sampleUrl cartPanel True 0 cartPanel
          (FilterByBudgetComponent True))) = [] \<and>
   filtered (fst (checkboxChanged samplePlatform sampleUrl sampleCart False
          (FilterByBudgetComponent True))) = [Null] \<and>
   filtered (fst (cartWatcher samplePlatform sampleUrl sampleCart True 100 sampleCart
      (fst (cartWatcher samplePlatform sampleUrl sampleCart True 0 sampleCart
              (FilterByBudgetComponent True))))) = [Number (Finite (31 / 2))]"
proof -
  let ?c = "FilterByBudgetComponent True"
  have idle: "cartTimer ?c = None" and en: "enabled ?c" and f0: "filtered ?c = []"
    by (simp_all add: FilterByBudgetComponent_def)
  have ok: "getData samplePlatform sampleCart = Inr [''5-3-Dinner'' \<mapsto> Finite (31 / 2)]"
    by (simp add: cart_defs)
  have key: "mealKey samplePlatform sampleUrl = ''5-3-Dinner''"
    by (simp add: cart_defs)
  have bad: "getData samplePlatform cartPanel = Inl TypeError"
    by (simp add: cart_defs)
  have look: "remainingBudgetOf [''5-3-Dinner'' \<mapsto> Finite (31 / 2)] ''5-3-Dinner'' =
                Number (Finite (31 / 2))"
    by (simp add: remainingBudgetOf_def)
  note T = component_cart_and_toggle_run_filter[where c="?c" and P=samplePlatform
      and url=sampleUrl and document=sampleCart and timerFirst=True and now=0
      and elem=sampleCart and cartData="[''5-3-Dinner'' \<mapsto> Finite (31 / 2)]"
      and checked=False and err=TypeError and format=formatSample]
  note B = component_cart_and_toggle_run_filter[where c="?c" and P=samplePlatform
      and url=sampleUrl and document=cartPanel and timerFirst=True and now=0
      and elem=cartPanel and cartData="Map.empty"
      and checked=False and err=TypeError and format=formatSample]
  have a: "snd (cartWatcher samplePlatform sampleUrl sampleCart True 0 sampleCart ?c) = None"
    and b: "filtered (fst (cartWatcher samplePlatform sampleUrl sampleCart True 0 sampleCart ?c))
              = [Number (Finite (31 / 2))]"
    and d: "cartTimer (fst (cartWatcher samplePlatform sampleUrl sampleCart True 0 sampleCart ?c))
              = Some 500"
    and t: "filtered (fst (checkboxChanged samplePlatform sampleUrl sampleCart False ?c)) = [Null]"
    using T idle ok en f0 by (simp_all add: key look)
  have e: "snd (cartWatcher samplePlatform sampleUrl cartPanel True 0 cartPanel ?c)
              = Some TypeError"
    and f: "filtered (fst (cartWatcher samplePlatform sampleUrl cartPanel True 0 cartPanel ?c))
              = []"
    using B idle bad f0 by simp_all
  note K = component_cart_and_toggle_run_filter[where
      c="fst (cartWatcher samplePlatform sampleUrl sampleCart True 0 sampleCart ?c)"
      and P=samplePlatform and url=sampleUrl and document=sampleCart and timerFirst=True
      and now=100 and elem=sampleCart and cartData="[''5-3-Dinner'' \<mapsto> Finite (31 / 2)]"
      and checked=False and err=TypeError and format=formatSample]
  have g: "filtered (fst (cartWatcher samplePlatform sampleUrl sampleCart True 100 sampleCart
      (fst (cartWatcher samplePlatform sampleUrl sampleCart True 0 sampleCart ?c))))
        = [Number (Finite (31 / 2))]"
    using K b d by simp
  show ?thesis by (intro conjI idle ok key a b d bad e f t g)
qed

end
